theory Spec2Isabelle
  imports Complex_Main
begin

section \<open>A shallow embedding of space.py\<close>

text \<open>
  Python floats are modelled as the real numbers: \<open>cos\<close>, \<open>sin\<close>, \<open>atan\<close> and \<open>sqrt\<close> of
  the \<open>math\<close> module are the real functions; rounding, infinities and NaN are not
  modelled. Every raise of the source is a value \<open>Inl e\<close> of a sum type; the one raise
  that depends on the range of the floats, the OverflowError of \<open>**\<close>, is modelled with
  the range of IEEE doubles. Objects are records; a method that
  mutates \<open>self\<close> returns the updated record next to its result. A private attribute
  \<open>__x\<close> of a class \<open>C\<close> keeps the name \<open>C_x\<close> that Python's name mangling gives it.
\<close>

datatype error = ZeroDivisionError | ValueError | OverflowError | TypeError

subsection \<open>The math module\<close>

definition py_sqrt :: "real \<Rightarrow> error + real" where
  \<comment> \<open>\<open>math.sqrt\<close> raises ValueError on a negative argument.\<close>
  "py_sqrt r = (if r < 0 then Inl ValueError else Inr (sqrt r))"

definition float_overflow :: real where
  \<comment> \<open>The least magnitude that rounds to infinity: halfway between the largest double
      \<open>2 ^ 1024 - 2 ^ 971\<close> and \<open>2 ^ 1024\<close>.\<close>
  "float_overflow = 2 ^ 1024 - 2 ^ 970"

definition py_pow :: "real \<Rightarrow> nat \<Rightarrow> error + real" where
  \<comment> \<open>\<open>x ** n\<close> on a float raises OverflowError when the result leaves the range of the
      floats; \<open>*\<close> and \<open>+\<close> raise nothing.\<close>
  "py_pow x n = (if float_overflow \<le> \<bar>x ^ n\<bar> then Inl OverflowError else Inr (x ^ n))"

definition py_truediv :: "real \<Rightarrow> real \<Rightarrow> error + real" where
  \<comment> \<open>\<open>a / b\<close> raises ZeroDivisionError when \<open>b\<close> is zero, for ints and floats alike.\<close>
  "py_truediv a b = (if b = 0 then Inl ZeroDivisionError else Inr (a / b))"

subsection \<open>Angle\<close>

record Angle =
  Angle_value :: real

definition Angle_init :: "real \<Rightarrow> bool \<Rightarrow> Angle" where
  "Angle_init v to_deg = \<lparr>Angle_value = (if \<not> to_deg then v else v * 180 / pi)\<rparr>"

definition degrees :: "Angle \<Rightarrow> real" where
  "degrees self = Angle_value self"

definition radians :: "Angle \<Rightarrow> real" where
  "radians self = Angle_value self * pi / 180"

definition Angle_sub :: "Angle \<Rightarrow> Angle \<Rightarrow> Angle" where
  "Angle_sub self other = Angle_init (Angle_value self - Angle_value other) False"

definition Angle_add :: "Angle \<Rightarrow> Angle \<Rightarrow> Angle" where
  "Angle_add self other = Angle_init (Angle_value self + Angle_value other) False"

subsection \<open>VectorizeParameter\<close>

record VectorizeParameter =
  VectorizeParameter_value :: real
  VectorizeParameter_angle :: Angle
  name :: string

definition default_name :: string where
  \<comment> \<open>The default of the \<open>name\<close> argument of the constructor.\<close>
  "default_name = ''val''"

definition VectorizeParameter_init :: "real \<Rightarrow> Angle \<Rightarrow> string \<Rightarrow> VectorizeParameter" where
  "VectorizeParameter_init v a n =
     \<lparr>VectorizeParameter_value = v, VectorizeParameter_angle = a, name = n\<rparr>"

definition x_vector :: "VectorizeParameter \<Rightarrow> real" where
  "x_vector self = VectorizeParameter_value self * cos (radians (VectorizeParameter_angle self))"

definition y_vector :: "VectorizeParameter \<Rightarrow> real" where
  "y_vector self = VectorizeParameter_value self * sin (radians (VectorizeParameter_angle self))"

definition VectorizeParameter_add ::
  "VectorizeParameter \<Rightarrow> VectorizeParameter \<Rightarrow> error + VectorizeParameter" where
  \<comment> \<open>\<open>__add__\<close>: the two squares are taken first, then the square root, then the
      quotient \<open>fy / fx\<close>.\<close>
  "VectorizeParameter_add self other =
     (let a = VectorizeParameter_value self; b = VectorizeParameter_value other;
          alpha = VectorizeParameter_angle self; betta = VectorizeParameter_angle other
      in case py_pow a 2 of
           Inl e \<Rightarrow> Inl e
         | Inr a2 \<Rightarrow>
             (case py_pow b 2 of
                Inl e \<Rightarrow> Inl e
              | Inr b2 \<Rightarrow>
                  (case py_sqrt (a2 + b2 + 2 * a * b * cos (radians (Angle_sub alpha betta))) of
                     Inl e \<Rightarrow> Inl e
                   | Inr c \<Rightarrow>
                       (let fx = a * cos (radians alpha) + b * cos (radians betta);
                            fy = a * sin (radians alpha) + b * sin (radians betta)
                        in case py_truediv fy fx of
                             Inl e \<Rightarrow> Inl e
                           | Inr q \<Rightarrow>
                               Inr (VectorizeParameter_init c (Angle_init (arctan q) True)
                                      default_name)))))"

definition VectorizeParameter_mul :: "VectorizeParameter \<Rightarrow> real \<Rightarrow> VectorizeParameter" where
  \<comment> \<open>\<open>__mul__\<close>: the constructor is called without a name.\<close>
  "VectorizeParameter_mul self other =
     VectorizeParameter_init (VectorizeParameter_value self * other)
       (VectorizeParameter_angle self) default_name"

definition VectorizeParameter_truediv ::
  "VectorizeParameter \<Rightarrow> real \<Rightarrow> error + VectorizeParameter" where
  \<comment> \<open>\<open>__truediv__\<close>: the constructor is called without a name.\<close>
  "VectorizeParameter_truediv self other =
     (case py_truediv (VectorizeParameter_value self) other of
        Inl e \<Rightarrow> Inl e
      | Inr q \<Rightarrow> Inr (VectorizeParameter_init q (VectorizeParameter_angle self) default_name))"

subsection \<open>Speed\<close>

text \<open>The attributes \<open>linear\<close> and \<open>rotational\<close> carry the class name, as \<open>linear\<close> is a
  constant of the library.\<close>

record Speed =
  Speed_linear :: VectorizeParameter
  Speed_rotational :: VectorizeParameter

definition Speed_init :: "VectorizeParameter option \<Rightarrow> VectorizeParameter option \<Rightarrow> Speed" where
  \<comment> \<open>An argument left out is \<open>None\<close>; every VectorizeParameter object is truthy.\<close>
  "Speed_init lin rot =
     \<lparr>Speed_linear = (case lin of Some v \<Rightarrow> v
                 | None \<Rightarrow> VectorizeParameter_init 0 (Angle_init 0 False) default_name),
      Speed_rotational = (case rot of Some v \<Rightarrow> v
                 | None \<Rightarrow> VectorizeParameter_init 0 (Angle_init 0 False) default_name)\<rparr>"

subsection \<open>Shapes: abstract base classes\<close>

datatype py_class = CollisionShape | SquareShape

definition declared_abstract :: "py_class \<Rightarrow> string list" where
  \<comment> \<open>The methods a class body decorates with \<open>@abstractmethod\<close>.\<close>
  "declared_abstract c =
     (case c of CollisionShape \<Rightarrow> [''top_verticals'', ''bottom_verticals'']
      | SquareShape \<Rightarrow> [])"

definition declared_concrete :: "py_class \<Rightarrow> string list" where
  \<comment> \<open>The methods a class body defines itself.\<close>
  "declared_concrete c =
     (case c of CollisionShape \<Rightarrow> [] | SquareShape \<Rightarrow> [''top_verticals''])"

definition abstractmethods :: "py_class \<Rightarrow> string list" where
  \<comment> \<open>\<open>__abstractmethods__\<close>: the methods declared abstract in the class, and those of
      its base that it does not override. CollisionShape derives from ABC alone,
      SquareShape from CollisionShape.\<close>
  "abstractmethods c =
     (case c of
        CollisionShape \<Rightarrow> declared_abstract CollisionShape
      | SquareShape \<Rightarrow>
          declared_abstract SquareShape @
          filter (\<lambda>m. m \<notin> set (declared_concrete SquareShape))
            (declared_abstract CollisionShape))"

record shape_object =
  cls :: py_class

definition instantiate :: "py_class \<Rightarrow> error + shape_object" where
  \<comment> \<open>Calling a class that still has abstract methods raises TypeError.\<close>
  "instantiate c = (if abstractmethods c = [] then Inr \<lparr>cls = c\<rparr> else Inl TypeError)"

subsection \<open>SpaceData\<close>

record SpaceData =
  SpaceData_width :: real
  SpaceData_height :: real
  SpaceData_x :: real
  SpaceData_y :: real
  SpaceData_angle :: Angle
  SpaceData_shape :: shape_object

definition SpaceData_init :: "real \<times> real \<Rightarrow> real \<times> real \<Rightarrow> Angle \<Rightarrow> error + SpaceData" where
  "SpaceData_init sz coords angles =
     (case sz of (w, h) \<Rightarrow>
       (case coords of (cx, cy) \<Rightarrow>
         (case instantiate CollisionShape of
            Inl e \<Rightarrow> Inl e
          | Inr sh \<Rightarrow>
              Inr \<lparr>SpaceData_width = w, SpaceData_height = h, SpaceData_x = cx,
                   SpaceData_y = cy, SpaceData_angle = angles, SpaceData_shape = sh\<rparr>)))"

definition update_coords ::
  "SpaceData \<Rightarrow> VectorizeParameter \<Rightarrow> real \<Rightarrow> (real \<times> real) \<times> SpaceData" where
  "update_coords self v t =
     (let s1 = self\<lparr>SpaceData_x := SpaceData_x self + x_vector v * t\<rparr>;
          s2 = s1\<lparr>SpaceData_y := SpaceData_y s1 + y_vector v * t\<rparr>
      in ((SpaceData_x s2, SpaceData_y s2), s2))"

subsection \<open>ForceData\<close>

record ForceData =
  mass :: real
  speed :: Speed

definition ForceData_init :: "real \<Rightarrow> Speed \<Rightarrow> error + ForceData" where
  \<comment> \<open>The constructor stores its arguments and checks nothing.\<close>
  "ForceData_init m sp = Inr \<lparr>mass = m, speed = sp\<rparr>"

datatype ('a, 'b) map_object = Map_object "'a \<Rightarrow> 'b" "'a list"

definition py_map :: "('a \<Rightarrow> 'b) \<Rightarrow> 'a list \<Rightarrow> ('a, 'b) map_object" where
  \<comment> \<open>\<open>map(f, xs)\<close> builds an iterator and calls \<open>f\<close> on nothing until it is consumed.\<close>
  "py_map f xs = Map_object f xs"

definition update_speed ::
  "ForceData \<Rightarrow> VectorizeParameter list \<Rightarrow> real \<Rightarrow> error + (VectorizeParameter \<times> ForceData)" where
  \<comment> \<open>The iterator built by \<open>map\<close> is dropped unconsumed, so \<open>avg_force\<close> stays
      \<open>forces[0]\<close>. \<open>+=\<close> on \<open>self.speed.linear\<close> is \<open>__add__\<close> and an assignment. An
      exception leaves \<open>self\<close> as it was.\<close>
  "update_speed self forces t =
     (case forces of
        [] \<Rightarrow> Inr (Speed_linear (speed self), self)
      | f0 # rest \<Rightarrow>
          (let avg_force = f0;
               unconsumed = py_map (VectorizeParameter_add avg_force) rest
           in case VectorizeParameter_truediv (VectorizeParameter_mul avg_force t) (mass self) of
                Inl e \<Rightarrow> Inl e
              | Inr dv \<Rightarrow>
                  (case VectorizeParameter_add (Speed_linear (speed self)) dv of
                     Inl e \<Rightarrow> Inl e
                   | Inr v \<Rightarrow> Inr (v, self\<lparr>speed := (speed self)\<lparr>Speed_linear := v\<rparr>\<rparr>))))"

subsection \<open>CollideObject and Object\<close>

record CollideObject =
  space_data :: SpaceData

record Object = CollideObject +
  Object_force_data :: ForceData

definition Object_init :: "SpaceData \<Rightarrow> ForceData \<Rightarrow> error + Object" where
  "Object_init sd fd = Inr \<lparr>space_data = sd, Object_force_data = fd\<rparr>"

definition Object_mass :: "Object \<Rightarrow> real" where
  "Object_mass self = mass (Object_force_data self)"

definition interact ::
  "Object \<Rightarrow> VectorizeParameter list \<Rightarrow> real \<Rightarrow> error + ((real \<times> real) \<times> Object)" where
  "interact self args t =
     (case update_speed (Object_force_data self) args t of
        Inl e \<Rightarrow> Inl e
      | Inr (v, fd) \<Rightarrow>
          (case update_coords (space_data self) v t of
             (coords, sd) \<Rightarrow> Inr (coords, self\<lparr>space_data := sd, Object_force_data := fd\<rparr>)))"

definition construct_Object ::
  "real \<times> real \<Rightarrow> real \<times> real \<Rightarrow> Angle \<Rightarrow> real \<Rightarrow> Speed \<Rightarrow> error + Object" where
  \<comment> \<open>The construction sequence of the driver: SpaceData, then ForceData, then Object.\<close>
  "construct_Object sz coords angles m sp =
     (case SpaceData_init sz coords angles of
        Inl e \<Rightarrow> Inl e
      | Inr s \<Rightarrow>
          (case ForceData_init m sp of
             Inl e \<Rightarrow> Inl e
           | Inr f \<Rightarrow> Object_init s f))"

subsection \<open>The update of the linear velocity as the specification words it\<close>

text \<open>
  The specification sums all forces with \<open>__add__\<close> from left to right and then sets
  the linear velocity to \<open>linear + (net_force / mass) * dt\<close>. The two definitions below
  follow these words, for comparison with \<open>update_speed\<close>.
\<close>

fun net_force_spec ::
  "VectorizeParameter \<Rightarrow> VectorizeParameter list \<Rightarrow> error + VectorizeParameter" where
  "net_force_spec acc [] = Inr acc"
| "net_force_spec acc (f # fs) =
     (case VectorizeParameter_add acc f of
        Inl e \<Rightarrow> Inl e
      | Inr s \<Rightarrow> net_force_spec s fs)"

definition update_speed_spec ::
  "ForceData \<Rightarrow> VectorizeParameter list \<Rightarrow> real \<Rightarrow> error + (VectorizeParameter \<times> ForceData)" where
  "update_speed_spec self forces t =
     (case forces of
        [] \<Rightarrow> Inr (Speed_linear (speed self), self)
      | f0 # rest \<Rightarrow>
          (case net_force_spec f0 rest of
             Inl e \<Rightarrow> Inl e
           | Inr net \<Rightarrow>
               (case VectorizeParameter_truediv net (mass self) of
                  Inl e \<Rightarrow> Inl e
                | Inr acc \<Rightarrow>
                    (case VectorizeParameter_add (Speed_linear (speed self))
                            (VectorizeParameter_mul acc t) of
                       Inl e \<Rightarrow> Inl e
                     | Inr v \<Rightarrow> Inr (v, self\<lparr>speed := (speed self)\<lparr>Speed_linear := v\<rparr>\<rparr>)))))"

subsection \<open>Concrete inputs\<close>

definition polar :: "real \<Rightarrow> real \<Rightarrow> string \<Rightarrow> VectorizeParameter" where
  \<comment> \<open>\<open>VectorizeParameter(r, Angle(d), n)\<close>, the angle given in degrees.\<close>
  "polar r d n = VectorizeParameter_init r (Angle_init d False) n"

definition at_rest :: ForceData where
  \<comment> \<open>\<open>ForceData(1, Speed())\<close>\<close>
  "at_rest = \<lparr>mass = 1, speed = Speed_init None None\<rparr>"

section \<open>Auxiliary facts\<close>

lemma radicand_nonneg:
  fixes a b c :: real
  assumes "\<bar>c\<bar> \<le> 1"
  shows "0 \<le> a ^ 2 + b ^ 2 + 2 * a * b * c"
proof -
  have "\<bar>a * b * c\<bar> \<le> \<bar>a * b\<bar>"
    using assms by (simp add: abs_mult mult_left_le)
  then have lower: "- \<bar>a * b\<bar> \<le> a * b * c"
    by linarith
  have "0 \<le> (\<bar>a\<bar> - \<bar>b\<bar>) ^ 2"
    by simp
  then have "2 * \<bar>a * b\<bar> \<le> a ^ 2 + b ^ 2"
    by (simp add: power2_diff abs_mult)
  with lower show ?thesis
    by linarith
qed

lemma py_sqrt_radicand:
  "py_sqrt (a ^ 2 + b ^ 2 + 2 * a * b * cos z) = Inr (sqrt (a ^ 2 + b ^ 2 + 2 * a * b * cos z))"
  using radicand_nonneg [of "cos z" a b] by (simp add: py_sqrt_def)

lemma radians_Angle_sub:
  "radians (Angle_sub alpha betta) = radians alpha - radians betta"
  by (simp add: radians_def Angle_sub_def Angle_init_def diff_divide_distrib left_diff_distrib)

lemma py_pow_small:
  assumes "\<bar>x\<bar> \<le> 2 ^ 500"
  shows "py_pow x 2 = Inr (x ^ 2)"
proof -
  have "\<bar>x\<bar> ^ 2 \<le> (2 ^ 500) ^ 2"
    using assms by (intro power_mono) simp_all
  then have "\<bar>x ^ 2\<bar> \<le> (2::real) ^ 1000"
    by (simp add: power_abs)
  moreover have "(2::real) ^ 1000 < float_overflow"
    by (simp add: float_overflow_def)
  ultimately show ?thesis
    by (simp add: py_pow_def)
qed

text \<open>\<open>__add__\<close> in closed form, away from overflow: the square root never fails over the
  reals, the division decides.\<close>

lemma VectorizeParameter_add_eq:
  assumes "\<bar>VectorizeParameter_value self\<bar> \<le> 2 ^ 500"
    and "\<bar>VectorizeParameter_value other\<bar> \<le> 2 ^ 500"
  shows "VectorizeParameter_add self other =
     (if x_vector self + x_vector other = 0 then Inl ZeroDivisionError
      else Inr \<lparr>VectorizeParameter_value =
                  sqrt ((VectorizeParameter_value self) ^ 2 + (VectorizeParameter_value other) ^ 2
                    + 2 * VectorizeParameter_value self * VectorizeParameter_value other
                      * cos (radians (VectorizeParameter_angle self)
                             - radians (VectorizeParameter_angle other))),
               VectorizeParameter_angle =
                 Angle_init (arctan ((y_vector self + y_vector other)
                                     / (x_vector self + x_vector other))) True,
               name = ''val''\<rparr>)"
  by (simp add: VectorizeParameter_add_def Let_def py_pow_small [OF assms(1)]
      py_pow_small [OF assms(2)] py_sqrt_radicand radians_Angle_sub
      py_truediv_def x_vector_def y_vector_def VectorizeParameter_init_def default_name_def)

lemma add_same_direction:
  assumes "0 < a + b" and "\<bar>a\<bar> \<le> 4" and "\<bar>b\<bar> \<le> 4"
  shows "VectorizeParameter_add
           \<lparr>VectorizeParameter_value = a, VectorizeParameter_angle = \<lparr>Angle_value = 0\<rparr>, name = n\<rparr>
           \<lparr>VectorizeParameter_value = b, VectorizeParameter_angle = \<lparr>Angle_value = 0\<rparr>, name = n'\<rparr>
         = Inr \<lparr>VectorizeParameter_value = a + b, VectorizeParameter_angle = \<lparr>Angle_value = 0\<rparr>,
                name = ''val''\<rparr>"
proof -
  have small: "\<bar>a\<bar> \<le> 2 ^ 500" "\<bar>b\<bar> \<le> 2 ^ 500"
    using assms(2,3) by (simp_all add: order_trans [where y = "4::real"])
  have "a ^ 2 + b ^ 2 + 2 * a * b = (a + b) ^ 2"
    by (simp add: power2_sum)
  then have "sqrt (a ^ 2 + b ^ 2 + 2 * a * b) = a + b"
    using assms(1) by simp
  then show ?thesis
    using assms(1) small
    by (simp add: VectorizeParameter_add_eq x_vector_def y_vector_def radians_def Angle_init_def)
qed

lemma instantiate_CollisionShape: "instantiate CollisionShape = Inl TypeError"
  by (simp add: instantiate_def abstractmethods_def declared_abstract_def)

text \<open>No force after the first reaches the result of \<open>update_speed\<close>.\<close>

lemma update_speed_tail: "update_speed fd (f # rest) t = update_speed fd [f] t"
  by (simp add: update_speed_def Let_def)

lemmas eval_defs =
  Speed_init_def Let_def VectorizeParameter_mul_def
  VectorizeParameter_truediv_def py_truediv_def default_name_def
  VectorizeParameter_init_def Angle_init_def

section \<open>The claims\<close>

text \<open>
  C1. The claim: for a non-empty list of forces, \<open>update_speed\<close> adds all of them from
  left to right and integrates the sum. The code builds the \<open>map\<close> iterator over
  \<open>forces[1:]\<close> and never consumes it, so only \<open>forces[0]\<close> is integrated. With a body
  of mass 1 at rest, the forces 1 and 2 along the same axis and a time step of 1, the
  code returns a linear velocity of magnitude 1, the same as for the first force alone,
  where the summation worded by the specification gives magnitude 3.
\<close>

theorem update_speed_first_force_only:
  "update_speed at_rest [polar 1 0 ''F1'', polar 2 0 ''F2''] 1 =
     Inr (polar 1 0 ''val'',
          \<lparr>mass = 1, speed = \<lparr>Speed_linear = polar 1 0 ''val'',
                               Speed_rotational = polar 0 0 ''val''\<rparr>\<rparr>)
   \<and> update_speed at_rest [polar 1 0 ''F1''] 1 =
     Inr (polar 1 0 ''val'',
          \<lparr>mass = 1, speed = \<lparr>Speed_linear = polar 1 0 ''val'',
                               Speed_rotational = polar 0 0 ''val''\<rparr>\<rparr>)
   \<and> update_speed_spec at_rest [polar 1 0 ''F1'', polar 2 0 ''F2''] 1 =
     Inr (polar 3 0 ''val'',
          \<lparr>mass = 1, speed = \<lparr>Speed_linear = polar 3 0 ''val'',
                               Speed_rotational = polar 0 0 ''val''\<rparr>\<rparr>)"
  by (simp add: update_speed_def update_speed_spec_def polar_def at_rest_def eval_defs
      add_same_direction)

text \<open>
  C2. Every call of the SpaceData constructor raises TypeError, whatever the arguments:
  it instantiates CollisionShape, which has abstract methods. So the construction
  sequence SpaceData, ForceData, Object never yields an Object either.
\<close>

theorem SpaceData_init_raises:
  "SpaceData_init sz coords angles = Inl TypeError
   \<and> construct_Object sz coords angles m sp = Inl TypeError"
  by (simp add: SpaceData_init_def construct_Object_def instantiate_CollisionShape
      split: prod.splits)

text \<open>
  C3, as stated, fails: constructing a ForceData with mass 0 raises nothing.
\<close>

theorem ForceData_init_zero_mass_succeeds:
  "\<not> (\<exists>e. ForceData_init 0 (Speed_init None None) = Inl e)"
  by (simp add: ForceData_init_def)

text \<open>
  C3, amended. For every mass, zero and negative ones included, and every Speed, the
  constructor succeeds and stores both as given. With mass 0 the failure comes at the
  first use: \<open>update_speed\<close> with a non-empty list of forces raises ZeroDivisionError.
\<close>

theorem ForceData_init_unchecked:
  "ForceData_init m sp = Inr \<lparr>mass = m, speed = sp\<rparr>
   \<and> update_speed \<lparr>mass = 0, speed = sp\<rparr> (f # fs) t = Inl ZeroDivisionError"
  by (simp add: ForceData_init_def update_speed_def Let_def VectorizeParameter_truediv_def
      py_truediv_def)

text \<open>
  C4, as stated, fails: with magnitudes \<open>2 ^ 600\<close> and 1 along the same axis the summed
  x-projection \<open>fx\<close> is not zero, and the addition returns no vector: \<open>a ** 2\<close> raises
  OverflowError.
\<close>

theorem VectorizeParameter_add_overflows:
  "x_vector (polar (2 ^ 600) 0 ''a'') + x_vector (polar 1 0 ''b'') \<noteq> 0
   \<and> VectorizeParameter_add (polar (2 ^ 600) 0 ''a'') (polar 1 0 ''b'') = Inl OverflowError"
proof -
  have "float_overflow \<le> \<bar>((2::real) ^ 600) ^ 2\<bar>"
    by (simp add: float_overflow_def)
  then have "VectorizeParameter_add (polar (2 ^ 600) 0 ''a'') (polar 1 0 ''b'') = Inl OverflowError"
    by (simp add: VectorizeParameter_add_def polar_def VectorizeParameter_init_def py_pow_def
        del: abs_power2)
  moreover have "x_vector (polar (2 ^ 600) 0 ''a'') + x_vector (polar 1 0 ''b'') = 2 ^ 600 + 1"
    by (simp add: x_vector_def polar_def VectorizeParameter_init_def Angle_init_def radians_def)
  moreover have "(2::real) ^ 600 + 1 \<noteq> 0"
    by (simp add: add_nonneg_eq_0_iff)
  ultimately show ?thesis
    by simp
qed

text \<open>
  C4, amended. Whenever \<open>__add__\<close> returns, it returns a new vector named \<open>val\<close> whose
  magnitude is \<open>sqrt (a\<^sup>2 + b\<^sup>2 + 2 a b cos D)\<close>, \<open>D\<close> the radians of the Angle
  \<open>alpha - betta\<close>, and whose angle is built from \<open>atan (fy / fx)\<close> with the flag \<open>to_deg\<close>
  set, where \<open>fx = a cos A + b cos B\<close> and \<open>fy = a sin A + b sin B\<close>. Nothing is said
  about when it returns.
\<close>

theorem VectorizeParameter_add_result:
  fixes self other :: VectorizeParameter
  defines "a \<equiv> VectorizeParameter_value self"
    and "b \<equiv> VectorizeParameter_value other"
    and "alpha \<equiv> VectorizeParameter_angle self"
    and "betta \<equiv> VectorizeParameter_angle other"
  assumes "VectorizeParameter_add self other = Inr v"
  shows "v = VectorizeParameter_init
               (sqrt (a ^ 2 + b ^ 2 + 2 * a * b * cos (radians (Angle_sub alpha betta))))
               (Angle_init
                  (arctan ((a * sin (radians alpha) + b * sin (radians betta))
                           / (a * cos (radians alpha) + b * cos (radians betta)))) True)
               default_name"
  using assms
  by (simp add: VectorizeParameter_add_def Let_def py_pow_def py_sqrt_def py_truediv_def
      split: if_splits)

text \<open>
  C4, amended, at the magnitudes 1 and 2 along the same axis: the sum is returned, with
  magnitude \<open>sqrt 9\<close> and the angle built from \<open>atan (0 / 3)\<close>.
\<close>

theorem VectorizeParameter_add_result_witness:
  "VectorizeParameter_add (polar 1 0 ''a'') (polar 2 0 ''b'') = Inr (polar 3 0 ''val'')
   \<and> VectorizeParameter_value (polar 3 0 ''val'') = sqrt 9
   \<and> VectorizeParameter_angle (polar 3 0 ''val'') = Angle_init (arctan (0 / 3)) True
   \<and> name (polar 3 0 ''val'') = default_name"
proof -
  have r: "VectorizeParameter_add (polar 1 0 ''a'') (polar 2 0 ''b'') = Inr (polar 3 0 ''val'')"
    by (simp add: polar_def VectorizeParameter_init_def Angle_init_def add_same_direction)
  from VectorizeParameter_add_result [OF r] r show ?thesis
    by (simp add: polar_def VectorizeParameter_init_def Angle_init_def Angle_sub_def radians_def)
qed

text \<open>
  C6, as stated, fails: scaling a vector named \<open>F\<close> by 1 returns a vector named
  \<open>val\<close>, so the name is not kept and scaling by 1 is not the identity.
\<close>

theorem scale_drops_name:
  "name (VectorizeParameter_mul (polar 1 0 ''F'') 1) \<noteq> name (polar 1 0 ''F'')"
  by (simp add: VectorizeParameter_mul_def polar_def VectorizeParameter_init_def default_name_def)

text \<open>
  C6, amended. \<open>v * k\<close> is a new vector with the magnitude of \<open>v\<close> times \<open>k\<close>, the angle
  of \<open>v\<close> and the default name \<open>val\<close>; \<open>v / k\<close> for \<open>k\<close> not zero is a new vector with
  the magnitude of \<open>v\<close> divided by \<open>k\<close>, the angle of \<open>v\<close> and the name \<open>val\<close>; scaling
  by 1 changes nothing but the name, which is reset to \<open>val\<close>. Nothing is said about
  dividing after scaling.
\<close>

theorem scale_divide:
  "VectorizeParameter_mul v k =
     v\<lparr>VectorizeParameter_value := VectorizeParameter_value v * k, name := ''val''\<rparr>
   \<and> (k \<noteq> 0 \<longrightarrow> VectorizeParameter_truediv v k =
         Inr (v\<lparr>VectorizeParameter_value := VectorizeParameter_value v / k, name := ''val''\<rparr>))
   \<and> VectorizeParameter_mul v 1 = v\<lparr>name := ''val''\<rparr>"
  by (simp add: VectorizeParameter_mul_def VectorizeParameter_truediv_def py_truediv_def
      VectorizeParameter_init_def default_name_def)

text \<open>C6, amended, at the vector of magnitude 3 at 30 degrees and \<open>k = 2\<close>.\<close>

theorem scale_divide_witness:
  "(2::real) \<noteq> 0
   \<and> VectorizeParameter_mul (polar 3 30 ''F'') 2 = polar (3 * 2) 30 ''val''
   \<and> VectorizeParameter_truediv (polar 3 30 ''F'') 2 = Inr (polar (3 / 2) 30 ''val'')"
proof -
  have k: "(2::real) \<noteq> 0"
    by simp
  from scale_divide [of "polar 3 30 ''F''" 2] k
  have "VectorizeParameter_mul (polar 3 30 ''F'') 2 =
          (polar 3 30 ''F'')\<lparr>VectorizeParameter_value :=
             VectorizeParameter_value (polar 3 30 ''F'') * 2, name := ''val''\<rparr>"
    and "VectorizeParameter_truediv (polar 3 30 ''F'') 2 =
          Inr ((polar 3 30 ''F'')\<lparr>VectorizeParameter_value :=
                 VectorizeParameter_value (polar 3 30 ''F'') / 2, name := ''val''\<rparr>)"
    by blast+
  then show ?thesis
    by (simp add: polar_def VectorizeParameter_init_def)
qed

text \<open>
  C7. With an empty list of forces, \<open>update_speed\<close> returns the current linear velocity
  and leaves the whole ForceData (mass, linear and rotational velocity) as it was, for
  every time step.
\<close>

theorem update_speed_no_forces:
  "update_speed fd [] t = Inr (Speed_linear (speed fd), fd)"
  by (simp add: update_speed_def)

text \<open>
  C8. \<open>update_coords\<close> moves the position \<open>(x, y)\<close> to
  \<open>(x + x_vector v * t, y + y_vector v * t)\<close>, returns that pair, and changes no other
  field: width, height and angle stay as they were.
\<close>

theorem update_coords_euler:
  "update_coords s v t =
     ((SpaceData_x s + x_vector v * t, SpaceData_y s + y_vector v * t),
      s\<lparr>SpaceData_x := SpaceData_x s + x_vector v * t,
        SpaceData_y := SpaceData_y s + y_vector v * t\<rparr>)
   \<and> SpaceData_width (snd (update_coords s v t)) = SpaceData_width s
   \<and> SpaceData_height (snd (update_coords s v t)) = SpaceData_height s
   \<and> SpaceData_angle (snd (update_coords s v t)) = SpaceData_angle s"
  by (simp add: update_coords_def Let_def)

text \<open>
  C9. An Angle built from \<open>d\<close> degrees, that is \<open>Angle(d)\<close>, has \<open>degrees = d\<close> and
  \<open>radians = d * pi / 180\<close>; for every Angle the two views are inverse conversions of
  each other; and an Angle built from \<open>r\<close> radians with the flag \<open>to_deg\<close> has
  \<open>radians = r\<close> and \<open>degrees = r * 180 / pi\<close>. Over the reals the equalities are exact.
\<close>

theorem Angle_degrees_radians:
  "degrees (Angle_init d False) = d
   \<and> radians (Angle_init d False) = d * pi / 180
   \<and> degrees a = radians a * 180 / pi
   \<and> radians a = degrees a * pi / 180
   \<and> radians (Angle_init r True) = r
   \<and> degrees (Angle_init r True) = r * 180 / pi"
  by (simp add: degrees_def radians_def Angle_init_def)

end
